theory Spec2Isabelle
  imports Complex_Main
begin

section \<open>Errors and floats\<close>

text \<open>
  Python exceptions are values. \<open>IndexConsistencyError\<close> and \<open>PreconditionError\<close> are the
  failures of the nearest-pair index.
\<close>

datatype error = TypeError | NameError | ValueError | ZeroDivisionError | IndexError
  | IndexConsistencyError | PreconditionError

text \<open>
  A Python float, or a numpy float64, is a real number, an infinity or a nan. Arithmetic
  on finite values is exact (no rounding, overflow or underflow), and zero has no sign: a
  division by zero is a division by \<open>+0.0\<close>. The operators are those of numpy arrays
  and scalars, which never raise: a finite value divided by zero is an infinity, or nan
  for \<open>0/0\<close>. Comparisons with a nan are false.
\<close>

datatype float = Finite real | PInf | NInf | NaN

instantiation float :: "{zero, one, plus, minus, uminus, times, inverse, ord}"
begin

definition zero_float :: float where
  "0 = Finite 0"

definition one_float :: float where
  "1 = Finite 1"

fun uminus_float :: "float \<Rightarrow> float" where
  "- Finite a = Finite (- a)"
| "- PInf = NInf"
| "- NInf = PInf"
| "- NaN = NaN"

fun plus_float :: "float \<Rightarrow> float \<Rightarrow> float" where
  "Finite a + Finite b = Finite (a + b)"
| "NaN + b = NaN"
| "a + NaN = NaN"
| "PInf + NInf = NaN"
| "NInf + PInf = NaN"
| "PInf + b = PInf"
| "a + PInf = PInf"
| "NInf + b = NInf"
| "a + NInf = NInf"

definition minus_float :: "float \<Rightarrow> float \<Rightarrow> float" where
  "(a :: float) - b = a + (- b)"

fun times_float :: "float \<Rightarrow> float \<Rightarrow> float" where
  "Finite a * Finite b = Finite (a * b)"
| "NaN * b = NaN"
| "a * NaN = NaN"
| "Finite a * PInf = (if a = 0 then NaN else if 0 < a then PInf else NInf)"
| "Finite a * NInf = (if a = 0 then NaN else if 0 < a then NInf else PInf)"
| "PInf * Finite b = (if b = 0 then NaN else if 0 < b then PInf else NInf)"
| "NInf * Finite b = (if b = 0 then NaN else if 0 < b then NInf else PInf)"
| "PInf * PInf = PInf"
| "PInf * NInf = NInf"
| "NInf * PInf = NInf"
| "NInf * NInf = PInf"

fun divide_float :: "float \<Rightarrow> float \<Rightarrow> float" where
  "divide_float (Finite a) (Finite b) =
     (if b \<noteq> 0 then Finite (a / b)
      else if a = 0 then NaN else if 0 < a then PInf else NInf)"
| "divide_float NaN b = NaN"
| "divide_float a NaN = NaN"
| "divide_float (Finite a) PInf = Finite 0"
| "divide_float (Finite a) NInf = Finite 0"
| "divide_float PInf (Finite b) = (if 0 \<le> b then PInf else NInf)"
| "divide_float NInf (Finite b) = (if 0 \<le> b then NInf else PInf)"
| "divide_float PInf PInf = NaN"
| "divide_float PInf NInf = NaN"
| "divide_float NInf PInf = NaN"
| "divide_float NInf NInf = NaN"

definition inverse_float :: "float \<Rightarrow> float" where
  "inverse (a :: float) = divide (Finite 1) a"

fun less_float :: "float \<Rightarrow> float \<Rightarrow> bool" where
  "Finite a < Finite b \<longleftrightarrow> a < b"
| "NaN < b \<longleftrightarrow> False"
| "a < NaN \<longleftrightarrow> False"
| "a < NInf \<longleftrightarrow> False"
| "PInf < b \<longleftrightarrow> False"
| "NInf < b \<longleftrightarrow> True"
| "a < PInf \<longleftrightarrow> True"

fun less_eq_float :: "float \<Rightarrow> float \<Rightarrow> bool" where
  "Finite a \<le> Finite b \<longleftrightarrow> a \<le> b"
| "NaN \<le> b \<longleftrightarrow> False"
| "a \<le> NaN \<longleftrightarrow> False"
| "NInf \<le> b \<longleftrightarrow> True"
| "a \<le> PInf \<longleftrightarrow> True"
| "a \<le> NInf \<longleftrightarrow> False"
| "PInf \<le> b \<longleftrightarrow> False"

instance ..

end

text \<open>Addition is associative and commutative, so that sums and numerals are available.\<close>

instance float :: comm_monoid_add
proof
  fix u v w :: float
  show "0 + u = u"
    by (cases u) (simp_all add: zero_float_def)
  show "u + v = v + u"
    by (cases u; cases v; simp)
  show "u + v + w = u + (v + w)"
    by (cases u; cases v; cases w; simp)
qed

instance float :: numeral ..

instance float :: power ..

text \<open>Python's \<open>==\<close> on floats: a nan is equal to nothing.\<close>

definition float_eq :: "float \<Rightarrow> float \<Rightarrow> bool" where
  "float_eq a b = (a = b \<and> a \<noteq> NaN)"

text \<open>\<open>math.exp\<close>, and the square root of numpy, which gives nan where it is undefined.\<close>

fun math_exp :: "float \<Rightarrow> float" where
  "math_exp (Finite a) = Finite (exp a)"
| "math_exp PInf = PInf"
| "math_exp NInf = Finite 0"
| "math_exp NaN = NaN"

fun numpy_sqrt :: "float \<Rightarrow> float" where
  "numpy_sqrt (Finite a) = (if 0 \<le> a then Finite (sqrt a) else NaN)"
| "numpy_sqrt PInf = PInf"
| "numpy_sqrt NInf = NaN"
| "numpy_sqrt NaN = NaN"

section \<open>Arrays (numpy) and distances (scipy.spatial.distance)\<close>

text \<open>
  A one-dimensional array is a list of floats. An elementwise binary operation broadcasts
  an array of length one and raises \<open>ValueError\<close> on any other mismatch of shapes.
  Dividing an array by a scalar never raises. \<open>sqeuclidean(u, v)\<close> is
  \<open>np.dot(u - v, u - v)\<close> and \<open>euclidean(u, v)\<close> the norm of \<open>u - v\<close>.
\<close>

definition broadcast :: "(float \<Rightarrow> float \<Rightarrow> float) \<Rightarrow> float list \<Rightarrow> float list \<Rightarrow> error + float list" where
  "broadcast f u v =
     (if length u = length v then Inr (map2 f u v)
      else if length u = 1 then Inr (map (f (hd u)) v)
      else if length v = 1 then Inr (map (\<lambda>a. f a (hd v)) u)
      else Inl ValueError)"

definition array_add :: "float list \<Rightarrow> float list \<Rightarrow> error + float list" where
  "array_add u v = broadcast (\<lambda>a b. a + b) u v"

definition array_sub :: "float list \<Rightarrow> float list \<Rightarrow> error + float list" where
  "array_sub u v = broadcast (\<lambda>a b. a - b) u v"

definition array_mul_scalar :: "float list \<Rightarrow> float \<Rightarrow> float list" where
  "array_mul_scalar u s = map (\<lambda>a. a * s) u"

definition array_div_scalar :: "float list \<Rightarrow> float \<Rightarrow> float list" where
  "array_div_scalar u s = map (\<lambda>a. a / s) u"

definition sqeuclidean :: "float list \<Rightarrow> float list \<Rightarrow> error + float" where
  "sqeuclidean u v =
     (case array_sub u v of
        Inl e \<Rightarrow> Inl e
      | Inr u_v \<Rightarrow> Inr (sum_list (map (\<lambda>a. a * a) u_v)))"

definition euclidean :: "float list \<Rightarrow> float list \<Rightarrow> error + float" where
  "euclidean u v =
     (case sqeuclidean u v of Inl e \<Rightarrow> Inl e | Inr d \<Rightarrow> Inr (numpy_sqrt d))"

section \<open>Kernel functions (kernel.py)\<close>

text \<open>
  \<open>math.acos\<close> and \<open>math.sqrt\<close> raise \<open>ValueError\<close> outside their domains and return nan
  for a nan.
\<close>

fun acos :: "float \<Rightarrow> error + float" where
  "acos (Finite a) = (if - 1 \<le> a \<and> a \<le> 1 then Inr (Finite (arccos a)) else Inl ValueError)"
| "acos PInf = Inl ValueError"
| "acos NInf = Inl ValueError"
| "acos NaN = Inr NaN"

fun math_sqrt :: "float \<Rightarrow> error + float" where
  "math_sqrt (Finite a) = (if 0 \<le> a then Inr (Finite (sqrt a)) else Inl ValueError)"
| "math_sqrt PInf = Inr PInf"
| "math_sqrt NInf = Inl ValueError"
| "math_sqrt NaN = Inr NaN"

text \<open>
  \<open>gaussian(x, y, sigma=1)\<close> returns \<open>exp(-(dist.sqeuclidean(x, y)/2*sigma**2))\<close>: Python
  reads \<open>d/2*sigma**2\<close> as \<open>(d/2)*(sigma**2)\<close>. The argument of \<open>exp\<close> is never positive
  (it is zero, negative, minus infinity or nan), so \<open>math.exp\<close> does not overflow.
\<close>

definition gaussian :: "float list \<Rightarrow> float list \<Rightarrow> float \<Rightarrow> error + float" where
  "gaussian x y sigma =
     (case sqeuclidean x y of
        Inl e \<Rightarrow> Inl e
      | Inr d \<Rightarrow> Inr (math_exp (- (d / 2 * sigma ^ 2))))"

text \<open>
  \<open>circular(x, y, sigma)\<close>. \<open>dist.euclidean\<close> returns a numpy scalar, so dividing it by a zero
  \<open>sigma\<close> gives an infinity or nan instead of raising.
\<close>

definition circular :: "float list \<Rightarrow> float list \<Rightarrow> float \<Rightarrow> error + float" where
  "circular x y sigma =
     (let pi2 = 2 / Finite pi in
      case euclidean x y of
        Inl e \<Rightarrow> Inl e
      | Inr d \<Rightarrow>
          (let norm_sigma = d / sigma in
           (case acos (- norm_sigma) of
              Inl e \<Rightarrow> Inl e
            | Inr ac \<Rightarrow>
                (case math_sqrt (1 - norm_sigma ^ 2) of
                   Inl e \<Rightarrow> Inl e
                 | Inr sq \<Rightarrow> Inr (pi2 * ac - pi2 * norm_sigma * sq)))))"

subsection \<open>Kernel-induced distance\<close>

text \<open>
  A kernel passed to \<open>kernel_dist\<close> is a function object: its \<open>__name__\<close> and what a call
  with the two vectors and the keyword arguments \<open>**kw\<close> returns. Keyword arguments are an
  association list.
\<close>

type_synonym kwargs = "(string \<times> float) list"

datatype kernel = Kernel (kname: string) (kcall: "float list \<Rightarrow> float list \<Rightarrow> kwargs \<Rightarrow> error + float")

definition kw_get :: "kwargs \<Rightarrow> string \<Rightarrow> float \<Rightarrow> float" where
  "kw_get kw k d = (case map_of kw k of None \<Rightarrow> d | Some v \<Rightarrow> v)"

text \<open>The function object \<open>gaussian\<close>: any keyword other than \<open>sigma\<close> is a \<open>TypeError\<close>.\<close>

definition gaussian_kernel :: kernel where
  "gaussian_kernel =
     Kernel ''gaussian''
       (\<lambda>x y kw. if list_all (\<lambda>k. k = ''sigma'') (map fst kw)
                 then gaussian x y (kw_get kw ''sigma'' 1) else Inl TypeError)"

text \<open>The general distance \<open>kern(x, x) - 2*kern(x, y) + kern(y, y)\<close>, evaluated left to right.\<close>

definition three_term :: "(float list \<Rightarrow> float list \<Rightarrow> error + float) \<Rightarrow> float list \<Rightarrow> float list \<Rightarrow> error + float" where
  "three_term kern x y =
     (case kern x x of
        Inl e \<Rightarrow> Inl e
      | Inr kxx \<Rightarrow>
          (case kern x y of
             Inl e \<Rightarrow> Inl e
           | Inr kxy \<Rightarrow>
               (case kern y y of
                  Inl e \<Rightarrow> Inl e
                | Inr kyy \<Rightarrow> Inr (kxx - 2 * kxy + kyy))))"

definition kernel_dist :: "kernel option \<Rightarrow> kwargs \<Rightarrow> float list \<Rightarrow> float list \<Rightarrow> error + float" where
  "kernel_dist kern kw =
     (case kern of
        None \<Rightarrow> euclidean
      | Some k \<Rightarrow>
          if kname k = ''gaussian''
          then (\<lambda>x y. case gaussian x y (kw_get kw ''sigma'' 1) of
                        Inl e \<Rightarrow> Inl e
                      | Inr g \<Rightarrow> Inr (2 - 2 * g))
          else three_term (\<lambda>x y. kcall k x y kw))"

section \<open>Centroids (centroid.py)\<close>

text \<open>
  \<open>Centroid\<close> stores the tuple \<open>(center, count)\<close>; its subclass \<open>KernelCentroid\<close> stores
  \<open>(center, count, size)\<close>. Both are immutable tuples, so every operation returns a new
  value. The named field \<open>size\<close> reads index 2 of the tuple, which a plain
  \<open>Centroid\<close> does not have.
\<close>

datatype centroid =
    Centroid (center: "float list") (count: int)
  | KernelCentroid (center: "float list") (count: int) float

fun size_attr :: "centroid \<Rightarrow> error + float" where
  "size_attr (Centroid c n) = Inl IndexError"
| "size_attr (KernelCentroid c n s) = Inr s"

text \<open>
  \<open>__eq__\<close> compares the centers only, as tuples: two centers are equal when they have
  the same length and equal entries.
\<close>

definition centroid_eq :: "centroid \<Rightarrow> centroid \<Rightarrow> bool" where
  "centroid_eq a b = list_all2 float_eq (center a) (center b)"

text \<open>
  \<open>isinstance(other, type(self))\<close> for two centroids: a \<open>KernelCentroid\<close> is an instance of
  \<open>Centroid\<close>, a plain \<open>Centroid\<close> is not an instance of \<open>KernelCentroid\<close>.
\<close>

fun isinstance_type :: "centroid \<Rightarrow> centroid \<Rightarrow> bool" where
  "isinstance_type other (Centroid c n) = True"
| "isinstance_type (KernelCentroid c' n' s') (KernelCentroid c n s) = True"
| "isinstance_type (Centroid c' n') (KernelCentroid c n s) = False"

text \<open>\<open>type(self)(center, count=count)\<close>: the size of a \<open>KernelCentroid\<close> defaults to 0.0.\<close>

fun type_self_new :: "centroid \<Rightarrow> float list \<Rightarrow> int \<Rightarrow> centroid" where
  "type_self_new (Centroid c n) c' n' = Centroid c' n'"
| "type_self_new (KernelCentroid c n s) c' n' = KernelCentroid c' n' 0"

text \<open>
  \<open>Centroid.__add__(self, other)\<close>, for an array-like \<open>other\<close>:
  \<open>center = self.center + ((other - array(other)) / (self.count+1))\<close>.
\<close>

definition Centroid_add :: "centroid \<Rightarrow> float list \<Rightarrow> error + centroid" where
  "Centroid_add self other =
     (case array_sub other other of
        Inl e \<Rightarrow> Inl e
      | Inr d \<Rightarrow>
          (let q = array_div_scalar d (Finite (of_int (count self + 1))) in
           (case array_add (center self) q of
              Inl e \<Rightarrow> Inl e
            | Inr c \<Rightarrow> Inr (type_self_new self c (count self + 1)))))"

text \<open>
  \<open>Centroid.merge(self, other)\<close>: after the type check and \<open>x + y\<close>, the names \<open>a\<close> and
  \<open>b\<close> of \<open>(x + y) / (a.count + b.count)\<close> are bound nowhere.
\<close>

definition Centroid_merge :: "centroid \<Rightarrow> centroid \<Rightarrow> error + centroid" where
  "Centroid_merge self other =
     (if \<not> isinstance_type other self then Inl TypeError
      else
        let x = array_mul_scalar (center self) (Finite (of_int (count self)));
            y = array_mul_scalar (center other) (Finite (of_int (count other)))
        in case array_add x y of
             Inl e \<Rightarrow> Inl e
           | Inr xy \<Rightarrow> Inl NameError)"

text \<open>\<open>KernelCentroid.merge(self, other)\<close>.\<close>

definition KernelCentroid_merge :: "centroid \<Rightarrow> centroid \<Rightarrow> error + centroid" where
  "KernelCentroid_merge self other =
     (if \<not> isinstance_type other self then Inl TypeError
      else
        case size_attr self of
          Inl e \<Rightarrow> Inl e
        | Inr self_size \<Rightarrow>
            (case size_attr other of
               Inl e \<Rightarrow> Inl e
             | Inr other_size \<Rightarrow>
                 (let x = array_mul_scalar (center self) self_size;
                      y = array_mul_scalar (center other) other_size
                  in (case array_add x y of
                        Inl e \<Rightarrow> Inl e
                      | Inr xy \<Rightarrow>
                          Inr (KernelCentroid
                                 (array_div_scalar xy (self_size + other_size))
                                 (count self + count other)
                                 (self_size + other_size))))))"

text \<open>
  \<open>KernelCentroid.__add__(self, other)\<close>, with \<open>kernel = lambda self, a, b: gaussian(a, b)\<close>.
  \<open>other\<close> is a centroid: the method reads \<open>other.center\<close>.
\<close>

definition KernelCentroid_add :: "centroid \<Rightarrow> centroid \<Rightarrow> error + centroid" where
  "KernelCentroid_add self other =
     (let x = center self; y = center other in
      case size_attr self of
        Inl e \<Rightarrow> Inl e
      | Inr self_size \<Rightarrow>
          (case gaussian (center self) (center other) 1 of
             Inl e \<Rightarrow> Inl e
           | Inr k \<Rightarrow>
               (let size = self_size + k in
                (case array_sub y x of
                   Inl e \<Rightarrow> Inl e
                 | Inr d \<Rightarrow>
                     (case array_add x (array_div_scalar d size) of
                        Inl e \<Rightarrow> Inl e
                      | Inr c \<Rightarrow> Inr (KernelCentroid c (count self + 1) size))))))"

text \<open>
  Method dispatch on the class of \<open>self\<close>. \<open>add\<close> is \<open>self + other\<close> for a centroid
  \<open>other\<close>; \<open>Centroid.__add__\<close> turns it into an array, and a centroid iterates over its
  center (\<open>Centroid.__iter__\<close>).
\<close>

fun merge :: "centroid \<Rightarrow> centroid \<Rightarrow> error + centroid" where
  "merge (Centroid c n) other = Centroid_merge (Centroid c n) other"
| "merge (KernelCentroid c n s) other = KernelCentroid_merge (KernelCentroid c n s) other"

fun add :: "centroid \<Rightarrow> centroid \<Rightarrow> error + centroid" where
  "add (Centroid c n) other = Centroid_add (Centroid c n) (center other)"
| "add (KernelCentroid c n s) other = KernelCentroid_add (KernelCentroid c n s) other"

section \<open>The nearest-pair index\<close>

text \<open>
  The engine stores its centroids in a \<open>FastPair\<close> of the package \<open>fastpair\<close>, which is
  not part of this repository. The index is modelled by the contract the specification
  gives for it: the stored centroids in order of insertion, and the configured distance.
  A centroid stands for its center wherever a distance is computed
  (\<open>Centroid.__iter__\<close>).
\<close>

record FastPair =
  fp_points :: "centroid list"
  fp_dist :: "float list \<Rightarrow> float list \<Rightarrow> error + float"

text \<open>
  Modelled from the spec: the constructor \<open>FastPair(10, dist=dist)\<close> of the external
  index, "configured at construction with a distance function and an initial capacity
  hint (not a hard cap)"; it starts empty.
\<close>

definition FastPair_init :: "(float list \<Rightarrow> float list \<Rightarrow> error + float) \<Rightarrow> FastPair" where
  "FastPair_init d = \<lparr>fp_points = [], fp_dist = d\<rparr>"

text \<open>Modelled from the spec: \<open>len(fastpair)\<close>, "size(): number of stored centroids".\<close>

definition fp_len :: "FastPair \<Rightarrow> nat" where
  "fp_len fp = length (fp_points fp)"

fun remove_first :: "('a \<Rightarrow> bool) \<Rightarrow> 'a list \<Rightarrow> 'a list" where
  "remove_first P [] = []"
| "remove_first P (x # xs) = (if P x then xs else x # remove_first P xs)"

fun replace_first :: "('a \<Rightarrow> bool) \<Rightarrow> 'a \<Rightarrow> 'a list \<Rightarrow> 'a list" where
  "replace_first P y [] = []"
| "replace_first P y (x # xs) = (if P x then y # xs else x # replace_first P y xs)"

text \<open>
  Modelled from the spec: \<open>fastpair += c\<close>, "insert(centroid): add a new centroid; fails
  if an equal (by center) centroid already exists".
\<close>

definition fp_add :: "FastPair \<Rightarrow> centroid \<Rightarrow> error + FastPair" where
  "fp_add fp c =
     (if list_ex (centroid_eq c) (fp_points fp) then Inl IndexConsistencyError
      else Inr (fp\<lparr>fp_points := fp_points fp @ [c]\<rparr>))"

text \<open>
  A stored centroid is found by identity or equality, as Python finds an element of a
  list (\<open>x is c or x == c\<close>). Objects are values here: a stored centroid with the fields
  of \<open>c\<close> is \<open>c\<close> itself, so that a centroid taken from the index is found there even
  when its center holds a nan.
\<close>

definition is_or_eq :: "centroid \<Rightarrow> centroid \<Rightarrow> bool" where
  "is_or_eq c x = (x = c \<or> centroid_eq x c)"

text \<open>
  Modelled from the spec: \<open>fastpair -= b\<close>, "remove(centroid): evict a stored centroid by
  identity/equality; fails if absent".
\<close>

definition fp_sub :: "FastPair \<Rightarrow> centroid \<Rightarrow> error + FastPair" where
  "fp_sub fp c =
     (if list_ex (is_or_eq c) (fp_points fp)
      then Inr (fp\<lparr>fp_points := remove_first (is_or_eq c) (fp_points fp)\<rparr>)
      else Inl IndexConsistencyError)"

text \<open>
  Modelled from the spec: \<open>fastpair._update_point(old, new)\<close>, "replace(old, new):
  atomically substitute one stored centroid for another at the same logical slot"; a
  replace of a non-existent entry is an index-consistency error.
\<close>

definition update_point :: "FastPair \<Rightarrow> centroid \<Rightarrow> centroid \<Rightarrow> error + FastPair" where
  "update_point fp old new =
     (if list_ex (is_or_eq old) (fp_points fp)
      then Inr (fp\<lparr>fp_points := replace_first (is_or_eq old) new (fp_points fp)\<rparr>)
      else Inl IndexConsistencyError)"

text \<open>A list of computations that may raise: the first error, else all the values.\<close>

fun map_result :: "('a \<Rightarrow> error + 'b) \<Rightarrow> 'a list \<Rightarrow> error + 'b list" where
  "map_result f [] = Inr []"
| "map_result f (x # xs) =
     (case f x of
        Inl e \<Rightarrow> Inl e
      | Inr y \<Rightarrow> (case map_result f xs of Inl e \<Rightarrow> Inl e | Inr ys \<Rightarrow> Inr (y # ys)))"

text \<open>
  Python's \<open>min(iterable, key=itemgetter(0))\<close>: the first element is kept until a later one
  has a smaller key, so it is the first element whose key is least when no key is a nan;
  \<open>ValueError\<close> on an empty iterable.
\<close>

fun min_itemgetter_0 :: "(float \<times> 'a) list \<Rightarrow> error + (float \<times> 'a)" where
  "min_itemgetter_0 [] = Inl ValueError"
| "min_itemgetter_0 (x # xs) = Inr (foldl (\<lambda>m y. if fst y < fst m then y else m) x xs)"

text \<open>
  A stable insertion sort by distance; a nan distance, which compares with nothing, is
  put last.
\<close>

definition dist_le :: "float \<Rightarrow> float \<Rightarrow> bool" where
  "dist_le a b = (a \<le> b \<or> b = NaN)"

fun insort_dist :: "(float \<times> 'a) \<Rightarrow> (float \<times> 'a) list \<Rightarrow> (float \<times> 'a) list" where
  "insort_dist x [] = [x]"
| "insort_dist x (y # ys) =
     (if dist_le (fst x) (fst y) then x # y # ys else y # insort_dist x ys)"

definition sort_dist :: "(float \<times> 'a) list \<Rightarrow> (float \<times> 'a) list" where
  "sort_dist xs = foldr insort_dist xs []"

text \<open>
  Modelled from the spec: \<open>fastpair.sdist(c)\<close>, "nearest(query_point): ordered sequence
  of (distance, centroid), ascending by distance, covering all stored centroids".
\<close>

definition sdist :: "FastPair \<Rightarrow> centroid \<Rightarrow> error + (float \<times> centroid) list" where
  "sdist fp p =
     (case map_result
             (\<lambda>b. case fp_dist fp (center p) (center b) of
                     Inl e \<Rightarrow> Inl e
                   | Inr d \<Rightarrow> Inr (d, b))
             (fp_points fp) of
        Inl e \<Rightarrow> Inl e
      | Inr ds \<Rightarrow> Inr (sort_dist ds))"

fun pairs :: "'a list \<Rightarrow> ('a \<times> 'a) list" where
  "pairs [] = []"
| "pairs (x # xs) = map (Pair x) xs @ pairs xs"

text \<open>
  Modelled from the spec: \<open>fastpair.closest_pair()\<close>, "the globally closest pair among all
  currently stored centroids under the configured distance; fails if fewer than 2
  centroids are stored". Among pairs at the same distance the first in stored order is
  taken.
\<close>

definition closest_pair :: "FastPair \<Rightarrow> error + (float \<times> (centroid \<times> centroid))" where
  "closest_pair fp =
     (if fp_len fp < 2 then Inl PreconditionError
      else
        (case map_result
                (\<lambda>(a, b). case fp_dist fp (center a) (center b) of
                             Inl e \<Rightarrow> Inl e
                           | Inr d \<Rightarrow> Inr (d, (a, b)))
                (pairs (fp_points fp)) of
           Inl e \<Rightarrow> Inl e
         | Inr ds \<Rightarrow> min_itemgetter_0 ds))"

section \<open>The cluster engine (base.py)\<close>

record AddC =
  kmax :: int
  npoints :: int
  centroid_factory :: "real list \<Rightarrow> centroid"
  fastpair :: FastPair

text \<open>
  The two centroid classes called with a point only: \<open>Centroid(p)\<close>, \<open>KernelCentroid(p)\<close>.
  A point of the stream is a tuple of finite floats.
\<close>

definition Centroid_new :: "real list \<Rightarrow> centroid" where
  "Centroid_new p = Centroid (map Finite p) 0"

definition KernelCentroid_new :: "real list \<Rightarrow> centroid" where
  "KernelCentroid_new p = KernelCentroid (map Finite p) 0 0"

definition AddC_init :: "int \<Rightarrow> (float list \<Rightarrow> float list \<Rightarrow> error + float) \<Rightarrow> (real list \<Rightarrow> centroid) \<Rightarrow> AddC" where
  "AddC_init k d factory =
     \<lparr>kmax = k, npoints = 0, centroid_factory = factory, fastpair = FastPair_init d\<rparr>"

text \<open>\<open>AddC()\<close>: \<open>kmax=100, dist=kernel_dist(gaussian), centroid_factory=KernelCentroid\<close>.\<close>

definition default_dist :: "float list \<Rightarrow> float list \<Rightarrow> error + float" where
  "default_dist = kernel_dist (Some gaussian_kernel) []"

definition AddC_default :: AddC where
  "AddC_default = AddC_init 100 default_dist KernelCentroid_new"

definition AddC_len :: "AddC \<Rightarrow> nat" where
  "AddC_len self = fp_len (fastpair self)"

definition step_one :: "AddC \<Rightarrow> centroid \<Rightarrow> error + AddC" where
  "step_one self c =
     (if fp_len (fastpair self) > 0
      then
        (case sdist (fastpair self) c of
           Inl e \<Rightarrow> Inl e
         | Inr ds \<Rightarrow>
             (case min_itemgetter_0 ds of
                Inl e \<Rightarrow> Inl e
              | Inr (d, old) \<Rightarrow>
                  (case add old c of
                     Inl e \<Rightarrow> Inl e
                   | Inr new \<Rightarrow>
                       (case update_point (fastpair self) old new of
                          Inl e \<Rightarrow> Inl e
                        | Inr fp \<Rightarrow> Inr (self\<lparr>fastpair := fp\<rparr>)))))
      else Inr self)"

definition step_two :: "AddC \<Rightarrow> error + AddC" where
  "step_two self =
     (if int (fp_len (fastpair self)) \<ge> kmax self \<and> fp_len (fastpair self) > 1
      then
        (case closest_pair (fastpair self) of
           Inl e \<Rightarrow> Inl e
         | Inr (d, (a, b)) \<Rightarrow>
             (case fp_sub (fastpair self) b of
                Inl e \<Rightarrow> Inl e
              | Inr fp \<Rightarrow>
                  (case merge a b of
                     Inl e \<Rightarrow> Inl e
                   | Inr ab \<Rightarrow>
                       (case update_point fp a ab of
                          Inl e \<Rightarrow> Inl e
                        | Inr fp' \<Rightarrow> Inr (self\<lparr>fastpair := fp'\<rparr>)))))
      else Inr self)"

definition step_three :: "AddC \<Rightarrow> centroid \<Rightarrow> error + AddC" where
  "step_three self c =
     (case fp_add (fastpair self) c of
        Inl e \<Rightarrow> Inl e
      | Inr fp \<Rightarrow> Inr (self\<lparr>fastpair := fp\<rparr>))"

text \<open>\<open>AddC.__add__(self, p)\<close>: one point through the three steps.\<close>

definition AddC_add :: "AddC \<Rightarrow> real list \<Rightarrow> error + AddC" where
  "AddC_add self p =
     (let c = centroid_factory self p in
      (case step_one self c of
         Inl e \<Rightarrow> Inl e
       | Inr s1 \<Rightarrow>
           (case step_two s1 of
              Inl e \<Rightarrow> Inl e
            | Inr s2 \<Rightarrow>
                (case step_three s2 c of
                   Inl e \<Rightarrow> Inl e
                 | Inr s3 \<Rightarrow> Inr (s3\<lparr>npoints := npoints s3 + 1\<rparr>)))))"

text \<open>\<open>AddC.batch(self, points)\<close>: \<open>for point in points: self += point\<close>.\<close>

fun batch :: "AddC \<Rightarrow> real list list \<Rightarrow> error + AddC" where
  "batch self [] = Inr self"
| "batch self (point # points) =
     (case AddC_add self point of
        Inl e \<Rightarrow> Inl e
      | Inr self' \<Rightarrow> batch self' points)"

text \<open>
  \<open>AddC.trim(self, p=0.01)\<close>. The first comprehension reads \<open>x.size\<close> of every stored
  centroid; \<open>sum(sub)/len(sub)\<close> raises \<open>ZeroDivisionError\<close> when \<open>sub\<close> is empty.
\<close>

definition trim :: "AddC \<Rightarrow> float \<Rightarrow> error + centroid list" where
  "trim self p =
     (case map_result size_attr (fp_points (fastpair self)) of
        Inl e \<Rightarrow> Inl e
      | Inr sizes \<Rightarrow>
          (let sub = filter (\<lambda>s. s > 0) sizes in
           if length sub = 0 then Inl ZeroDivisionError
           else
             (let t = (sum_list sub / Finite (real (length sub))) * p in
              Inr (filter (\<lambda>x. case size_attr x of Inl e \<Rightarrow> False | Inr s \<Rightarrow> s \<ge> t)
                     (fp_points (fastpair self))))))"

section \<open>Floats: auxiliary facts\<close>

lemma numeral_float: "(numeral k :: float) = Finite (numeral k)"
proof (induction k)
  case One
  show ?case
    by (simp only: numeral_One one_float_def)
next
  case (Bit0 k)
  have "(numeral (num.Bit0 k) :: float) = Finite (numeral k) + Finite (numeral k)"
    by (simp only: numeral_Bit0 Bit0)
  also have "\<dots> = Finite (numeral (num.Bit0 k))"
    by (simp only: plus_float.simps numeral_Bit0)
  finally show ?case .
next
  case (Bit1 k)
  have "(numeral (num.Bit1 k) :: float) = Finite (numeral k) + Finite (numeral k) + Finite 1"
    by (simp only: numeral_Bit1 Bit1 one_float_def)
  also have "\<dots> = Finite (numeral (num.Bit1 k))"
    by (simp only: plus_float.simps numeral_Bit1)
  finally show ?case .
qed

lemma float_power2: "(a :: float) ^ 2 = a * a"
  by (cases a) (simp_all add: numeral_2_eq_2 one_float_def)

lemmas float_arith = numeral_float zero_float_def one_float_def minus_float_def float_power2

section \<open>Arrays: auxiliary facts\<close>

lemmas array_defs =
  array_add_def array_sub_def array_mul_scalar_def array_div_scalar_def broadcast_def

lemma array_sub_equal_length: "length u = length v \<Longrightarrow> \<exists>d. array_sub u v = Inr d"
  by (simp add: array_sub_def broadcast_def)

lemma array_add_equal_length: "length u = length v \<Longrightarrow> \<exists>d. array_add u v = Inr d"
  by (simp add: array_add_def broadcast_def)

lemma move_towards:
  assumes "length c = length p" and "array_sub p c = Inr d"
  shows "array_add c (array_div_scalar d z) = Inr (map2 (\<lambda>a b. a + (b - a) / z) c p)"
proof -
  have d: "d = map2 (\<lambda>a b. a - b) p c"
    using assms by (simp add: array_sub_def broadcast_def)
  have "map2 (\<lambda>a b. a + b) c (map (\<lambda>a. a / z) d) = map2 (\<lambda>a b. a + (b - a) / z) c p"
    using assms(1) by (simp add: list_eq_iff_nth_eq d)
  then show ?thesis
    using assms(1) by (simp add: array_add_def array_div_scalar_def broadcast_def d)
qed

lemma weighted_average:
  assumes "length ca = length cb"
    and "array_add (array_mul_scalar ca sa) (array_mul_scalar cb sb) = Inr xy"
  shows "array_div_scalar xy z = map2 (\<lambda>a b. (a * sa + b * sb) / z) ca cb"
proof -
  have xy: "xy = map2 (\<lambda>a b. a + b) (map (\<lambda>a. a * sa) ca) (map (\<lambda>a. a * sb) cb)"
    using assms by (simp add: array_add_def array_mul_scalar_def broadcast_def)
  show ?thesis
    using assms(1) by (simp add: array_div_scalar_def list_eq_iff_nth_eq xy)
qed

text \<open>On finite vectors of equal length the squared distance is the real one.\<close>

lemma sum_list_Finite: "sum_list (map Finite xs) = Finite (sum_list xs)"
  by (induction xs) (simp_all add: zero_float_def)

lemma sqeuclidean_Finite:
  assumes "length x = length y"
  shows "sqeuclidean (map Finite x) (map Finite y)
           = Inr (Finite (sum_list (map2 (\<lambda>a b. (a - b) * (a - b)) x y)))"
proof -
  have "map (\<lambda>a. a * a) (map2 (\<lambda>a b. a - b) (map Finite x) (map Finite y))
          = map Finite (map2 (\<lambda>a b. (a - b) * (a - b)) x y)"
    using assms by (simp add: list_eq_iff_nth_eq minus_float_def)
  moreover have "sqeuclidean (map Finite x) (map Finite y)
          = Inr (sum_list (map (\<lambda>a. a * a) (map2 (\<lambda>a b. a - b) (map Finite x) (map Finite y))))"
    using assms by (simp add: sqeuclidean_def array_sub_def broadcast_def)
  ultimately show ?thesis
    by (simp only: sum_list_Finite)
qed

section \<open>Kernels\<close>

lemma gaussian_Finite:
  assumes "length x = length y"
  shows "gaussian (map Finite x) (map Finite y) (Finite sigma)
           = Inr (Finite (exp (- (sum_list (map2 (\<lambda>a b. (a - b) * (a - b)) x y) / 2 * sigma ^ 2))))"
  using assms
  by (simp add: gaussian_def sqeuclidean_Finite float_arith power2_eq_square)

lemma gaussian_self: "gaussian (map Finite x) (map Finite x) (Finite sigma) = Inr 1"
proof -
  have "sum_list (map2 (\<lambda>a b. (a - b) * (a - b)) x x) = (0::real)"
    by (induction x) simp_all
  then show ?thesis
    using gaussian_Finite [of x x sigma] by (simp add: one_float_def)
qed

lemma gaussian_equal_length: "length x = length y \<Longrightarrow> \<exists>g. gaussian x y sigma = Inr g"
  by (simp add: gaussian_def sqeuclidean_def array_sub_def broadcast_def)

text \<open>
  C6. The Gaussian kernel is claimed to return \<open>exp(-\<parallel>x-y\<parallel>\<^sup>2 / (2\<sigma>\<^sup>2))\<close> for every
  positive \<open>\<sigma>\<close>. The code multiplies by \<open>\<sigma>\<^sup>2\<close> where the claim divides: at \<open>x = (0)\<close>,
  \<open>y = (1)\<close>, \<open>\<sigma> = 2\<close> it returns \<open>exp(-2)\<close>, which is not the claimed \<open>exp(-1/8)\<close>.
\<close>

theorem gaussian_multiplies_by_sigma_squared:
  "gaussian [0] [1] 2 = Inr (Finite (exp (- 2)))
   \<and> exp (- 2) \<noteq> (exp (- (1 / (2 * 2 ^ 2))) :: real)"
  by (simp add: gaussian_def sqeuclidean_def array_defs float_arith)

text \<open>
  C7. For real vectors \<open>x\<close>, \<open>y\<close> of equal length and any keyword arguments with a real
  \<open>sigma\<close> (1 when it is not given), the distance that \<open>kernel_dist\<close> builds for the
  Gaussian kernel, \<open>2 - 2 K(x, y)\<close>, and the general \<open>K(x, x) - 2 K(x, y) + K(y, y)\<close>
  with the same Gaussian \<open>K\<close> and the same \<open>sigma\<close> both return a real number, and the two
  differ by less than \<open>1e-8\<close>.
\<close>

theorem gaussian_shortcut_equivalence:
  assumes "length x = length y" and "kw_get kw ''sigma'' 1 = Finite sigma"
  shows "\<exists>d2 d3. kernel_dist (Some gaussian_kernel) kw (map Finite x) (map Finite y) = Inr (Finite d2)
            \<and> three_term (\<lambda>a b. gaussian a b (Finite sigma)) (map Finite x) (map Finite y)
                = Inr (Finite d3)
            \<and> \<bar>d2 - d3\<bar> < 1 / 10 ^ 8"
  using assms
  by (simp add: kernel_dist_def gaussian_kernel_def three_term_def gaussian_self
      gaussian_Finite float_arith)

theorem gaussian_shortcut_equivalence_witness:
  "\<exists>d2 d3. kernel_dist (Some gaussian_kernel) [(''sigma'', 3)] [1, 2] [4, 6] = Inr (Finite d2)
            \<and> three_term (\<lambda>a b. gaussian a b 3) [1, 2] [4, 6] = Inr (Finite d3)
            \<and> \<bar>d2 - d3\<bar> < 1 / 10 ^ 8"
  using gaussian_shortcut_equivalence [of "[1, 2]" "[4, 6]" "[(''sigma'', 3)]" 3]
  by (simp add: kw_get_def float_arith)

text \<open>
  C8. The circular kernel is claimed to return 0 whenever \<open>r = \<parallel>x-y\<parallel>/\<sigma> \<ge> 1\<close>. The code
  has no such case: at \<open>x = (0)\<close>, \<open>y = (1)\<close>, \<open>\<sigma> = 1\<close> (\<open>r = 1\<close>) it returns 2, and at
  \<open>x = (0)\<close>, \<open>y = (2)\<close>, \<open>\<sigma> = 1\<close> (\<open>r = 2\<close>) \<open>acos\<close> raises \<open>ValueError\<close>.
\<close>

theorem circular_not_zero_beyond_sigma:
  "circular [0] [1] 1 = Inr 2 \<and> circular [0] [2] 1 = Inl ValueError"
  by (simp add: circular_def euclidean_def sqeuclidean_def array_defs float_arith)


lemma euclidean_Finite_nonneg: "euclidean x y = Inr (Finite d) \<Longrightarrow> 0 \<le> d"
proof -
  have "numpy_sqrt a = Finite d \<Longrightarrow> 0 \<le> d" for a
    by (cases a) (auto split: if_splits)
  then show "euclidean x y = Inr (Finite d) \<Longrightarrow> 0 \<le> d"
    by (auto simp: euclidean_def split: sum.splits)
qed

text \<open>Inside the radius, \<open>r < 1\<close>, the circular kernel returns the documented value.\<close>

lemma circular_inside:
  assumes "euclidean x y = Inr (Finite d)" and "0 < sigma" and "d / sigma < 1"
  shows "circular x y (Finite sigma) =
           Inr (Finite (2 / pi * arccos (- (d / sigma))
                        - 2 / pi * (d / sigma) * sqrt (1 - (d / sigma) ^ 2)))"
proof -
  have r: "0 \<le> d / sigma"
    using euclidean_Finite_nonneg [OF assms(1)] assms(2) by simp
  have "(d / sigma) ^ 2 \<le> 1"
    using r assms(3) by (simp add: power_le_one)
  then show ?thesis
    using assms r by (simp add: circular_def float_arith power2_eq_square)
qed

section \<open>Kernel centroids\<close>

text \<open>
  C2. A kernel centroid \<open>(c, n, s)\<close> absorbing a point \<open>p\<close> of the same dimension (the
  center of the centroid \<open>other\<close> wrapping it), with \<open>k = K(c, p)\<close> the Gaussian kernel
  at \<open>sigma = 1\<close>, returns the new kernel centroid with size \<open>s + k\<close>, center
  \<open>c + (p - c) / (s + k)\<close> and count \<open>n + 1\<close>. The operation is a function from values to
  a new value: the centroid it is applied to is not changed.
\<close>

theorem KernelCentroid_add_absorbs:
  assumes "length c = length (center other)"
    and "gaussian c (center other) 1 = Inr k"
  shows "add (KernelCentroid c n s) other =
           Inr (KernelCentroid (map2 (\<lambda>a b. a + (b - a) / (s + k)) c (center other))
                  (n + 1) (s + k))"
proof -
  obtain d where d: "array_sub (center other) c = Inr d"
    using array_sub_equal_length [of "center other" c] assms(1) by auto
  show ?thesis
    using move_towards [OF assms(1) d, of "s + k"]
    by (simp add: KernelCentroid_add_def Let_def assms(2) d)
qed

theorem KernelCentroid_add_absorbs_witness:
  "add (KernelCentroid [0, 0] 3 1) (KernelCentroid [2, 4] 0 0)
     = Inr (KernelCentroid [Finite (2 / (1 + exp (- 10))), Finite (4 / (1 + exp (- 10)))] 4
              (Finite (1 + exp (- 10))))"
proof -
  have g: "gaussian [0, 0] (center (KernelCentroid [2, 4] 0 0)) 1 = Inr (Finite (exp (- 10)))"
    by (simp add: gaussian_def sqeuclidean_def array_defs float_arith)
  have nz: "(1::real) + exp (- 10) \<noteq> 0"
    using exp_gt_zero [of "- 10 :: real"] by linarith
  show ?thesis
    using KernelCentroid_add_absorbs
            [of "[0, 0]" "KernelCentroid [2, 4] 0 0" "Finite (exp (- 10))" 3 1, OF _ g] nz
    by (simp add: float_arith)
qed

text \<open>
  C3. Merging two kernel centroids \<open>a\<close> and \<open>b\<close> of the same dimension with
  \<open>size_a + size_b\<close> not zero returns the centroid whose center is
  \<open>(center_a size_a + center_b size_b) / (size_a + size_b)\<close>, whose count is
  \<open>count_a + count_b\<close> and whose size is \<open>size_a + size_b\<close>.
\<close>

theorem KernelCentroid_merge_conserves_mass:
  assumes "length ca = length cb" and "sa + sb \<noteq> 0"
  shows "merge (KernelCentroid ca na sa) (KernelCentroid cb nb sb) =
           Inr (KernelCentroid (map2 (\<lambda>a b. (a * sa + b * sb) / (sa + sb)) ca cb)
                  (na + nb) (sa + sb))"
proof -
  obtain xy where xy: "array_add (array_mul_scalar ca sa) (array_mul_scalar cb sb) = Inr xy"
    using array_add_equal_length [of "array_mul_scalar ca sa" "array_mul_scalar cb sb"] assms(1)
    by (auto simp: array_mul_scalar_def)
  show ?thesis
    using weighted_average [OF assms(1) xy, of "sa + sb"]
    by (simp add: KernelCentroid_merge_def xy)
qed

theorem KernelCentroid_merge_conserves_mass_witness:
  "merge (KernelCentroid [0, 4] 2 1) (KernelCentroid [4, 0] 5 3) = Inr (KernelCentroid [3, 1] 7 4)"
  using KernelCentroid_merge_conserves_mass [of "[0, 4]" "[4, 0]" 1 3 2 5]
  by (simp add: float_arith)

text \<open>
  Two centroids that have absorbed nothing have size 0.0: their merge divides by zero,
  which numpy answers with nan, and returns.
\<close>

lemma KernelCentroid_merge_sizes_zero:
  "merge (KernelCentroid [1] 0 0) (KernelCentroid [9] 0 0) = Inr (KernelCentroid [NaN] 0 0)"
  by (simp add: KernelCentroid_merge_def array_defs float_arith)

section \<open>Plain centroids\<close>

text \<open>Absorbing a point of its dimension never moves a plain centroid.\<close>

lemma Centroid_add_center_fixed:
  assumes "length c = length p" and "n + 1 \<noteq> 0"
  shows "Centroid_add (Centroid c n) (map Finite p) = Inr (Centroid c (n + 1))"
proof -
  have nz: "(of_int (n + 1) :: real) \<noteq> 0"
    using assms(2) by (simp only: of_int_eq_0_iff) simp
  have z: "(Finite a - Finite a) / Finite (of_int (n + 1)) = 0" for a
    using nz by (simp add: minus_float_def zero_float_def)
  have "map2 (\<lambda>a b. a + b) c
          (map (\<lambda>a. a / Finite (of_int (n + 1)))
             (map2 (\<lambda>a b. a - b) (map Finite p) (map Finite p))) = c"
    using assms(1) by (simp add: list_eq_iff_nth_eq z del: of_int_add)
  then show ?thesis
    using assms(1) by (simp add: Centroid_add_def array_defs Let_def del: of_int_add)
qed

text \<open>\<open>Centroid.merge\<close> returns for no pair of centroids.\<close>

lemma Centroid_merge_never_returns: "Centroid_merge self other \<noteq> Inr r"
  by (simp add: Centroid_merge_def Let_def split: sum.splits)

text \<open>
  C4. A plain centroid absorbing a point \<open>p\<close> is claimed to move to the running mean
  \<open>center + (p - center)/(count + 1)\<close>, so that its center changes when \<open>p\<close> differs from
  it. \<open>Centroid.__add__\<close> subtracts the point from itself: the centroid \<open>((0,), 0)\<close>
  absorbing \<open>(1,)\<close> keeps the center \<open>(0,)\<close>, where the claim gives \<open>(1,)\<close>; only the
  count is incremented.
\<close>

theorem Centroid_add_keeps_center:
  "Centroid_add (Centroid [0] 0) [1] = Inr (Centroid [0] 1)"
  by (simp add: Centroid_add_def array_defs float_arith)

text \<open>
  C5. Merging two plain centroids is claimed to return the count-weighted average of the
  centers with the counts added. \<open>Centroid.merge\<close> never returns: at the centroids
  \<open>((0,), 1)\<close> and \<open>((1,), 1)\<close> it raises \<open>NameError\<close>, where the claim gives
  \<open>((0.5,), 2)\<close>.
\<close>

theorem Centroid_merge_raises_NameError:
  "merge (Centroid [0] 1) (Centroid [1] 1) = Inl NameError"
  by (simp add: Centroid_merge_def array_defs)

section \<open>Centroids of different kinds\<close>

text \<open>
  C9, as claimed: a kernel centroid absorbing a plain centroid fails with a type-mismatch
  error. It does not: \<open>KernelCentroid.__add__\<close> only reads \<open>other.center\<close>, and the
  kernel centroid \<open>((0,), 0, 0.0)\<close> absorbing the plain centroid \<open>((0,), 0)\<close> returns the
  kernel centroid \<open>((0,), 1, 1.0)\<close>.
\<close>

theorem KernelCentroid_add_accepts_plain:
  "add (KernelCentroid [0] 0 0) (Centroid [0] 0) = Inr (KernelCentroid [0] 1 1)"
  by (simp add: KernelCentroid_add_def gaussian_def sqeuclidean_def array_defs float_arith)

text \<open>
  C9, amended. For every kernel centroid \<open>k\<close> and plain centroid \<open>p\<close>, \<open>merge(k, p)\<close>
  fails with a type-mismatch error; \<open>absorb(k, p)\<close> makes no check of the kind: it never
  fails with a type-mismatch error and gives what absorbing a kernel centroid with the
  center of \<open>p\<close> gives.
\<close>

theorem cross_kind_merge_and_absorb:
  "merge (KernelCentroid c n s) (Centroid c' n') = Inl TypeError
   \<and> add (KernelCentroid c n s) (Centroid c' n') \<noteq> Inl TypeError
   \<and> add (KernelCentroid c n s) (Centroid c' n')
       = add (KernelCentroid c n s) (KernelCentroid c' n' s')"
  by (simp add: KernelCentroid_merge_def KernelCentroid_add_def gaussian_def sqeuclidean_def
        array_defs Let_def split: sum.splits)

section \<open>The capacity of the engine\<close>

lemma length_remove_first:
  "list_ex P xs \<Longrightarrow> Suc (length (remove_first P xs)) = length xs"
  by (induction xs) auto

lemma length_replace_first: "length (replace_first P y xs) = length xs"
  by (induction xs) auto

lemma fp_add_len: "fp_add fp c = Inr fp' \<Longrightarrow> fp_len fp' = Suc (fp_len fp)"
  by (auto simp: fp_add_def fp_len_def split: if_splits)

lemma fp_sub_len: "fp_sub fp c = Inr fp' \<Longrightarrow> Suc (fp_len fp') = fp_len fp"
  by (auto simp: fp_sub_def fp_len_def length_remove_first split: if_splits)

lemma update_point_len: "update_point fp old new = Inr fp' \<Longrightarrow> fp_len fp' = fp_len fp"
  by (auto simp: update_point_def fp_len_def length_replace_first split: if_splits)

text \<open>Step 1 replaces a centroid, step 2 removes one when its guard holds, step 3 adds one.\<close>

lemma step_one_len:
  "step_one self c = Inr s \<Longrightarrow>
   AddC_len s = AddC_len self \<and> kmax s = kmax self \<and> npoints s = npoints self"
  by (auto simp: step_one_def AddC_len_def split: if_splits sum.splits prod.splits
      dest: update_point_len)

lemma step_two_len:
  "step_two self = Inr s \<Longrightarrow>
   kmax s = kmax self \<and> npoints s = npoints self \<and>
   (if int (AddC_len self) \<ge> kmax self \<and> AddC_len self > 1
    then Suc (AddC_len s) = AddC_len self else AddC_len s = AddC_len self)"
  by (auto simp: step_two_def AddC_len_def split: if_splits sum.splits prod.splits
      dest!: update_point_len fp_sub_len)

lemma step_three_len:
  "step_three self c = Inr s \<Longrightarrow>
   AddC_len s = Suc (AddC_len self) \<and> kmax s = kmax self \<and> npoints s = npoints self"
  by (auto simp: step_three_def AddC_len_def split: sum.splits dest: fp_add_len)

lemma AddC_add_len:
  assumes "AddC_add self p = Inr s"
  shows "kmax s = kmax self \<and> npoints s = npoints self + 1 \<and>
         AddC_len s = (if int (AddC_len self) \<ge> kmax self \<and> AddC_len self > 1
                       then AddC_len self else Suc (AddC_len self))"
proof -
  from assms obtain s1 s2 s3 where
    s1: "step_one self (centroid_factory self p) = Inr s1" and
    s2: "step_two s1 = Inr s2" and
    s3: "step_three s2 (centroid_factory self p) = Inr s3" and
    s: "s = s3\<lparr>npoints := npoints s3 + 1\<rparr>"
    by (auto simp: AddC_add_def Let_def split: sum.splits)
  note l1 = step_one_len [OF s1] and l2 = step_two_len [OF s2] and l3 = step_three_len [OF s3]
  have ls: "AddC_len s = AddC_len s3"
    by (simp add: s AddC_len_def)
  show ?thesis
    using l1 l2 l3 ls by (auto simp: s split: if_splits)
qed

lemma AddC_add_capacity:
  assumes "AddC_add self p = Inr s" and "AddC_len self = min k (nat (max (kmax self) 2))"
  shows "AddC_len s = min (Suc k) (nat (max (kmax self) 2))"
  using AddC_add_len [OF assms(1)] assms(2) by (auto split: if_splits)

lemma batch_capacity:
  "batch self ps = Inr s \<Longrightarrow> AddC_len self = min k (nat (max (kmax self) 2)) \<Longrightarrow>
   npoints self = int k \<Longrightarrow>
   AddC_len s = min (k + length ps) (nat (max (kmax self) 2))
     \<and> npoints s = int (k + length ps) \<and> kmax s = kmax self"
proof (induction ps arbitrary: self k)
  case Nil
  then show ?case by simp
next
  case (Cons p ps)
  from Cons.prems(1) obtain s1 where
    s1: "AddC_add self p = Inr s1" and rest: "batch s1 ps = Inr s"
    by (auto split: sum.splits)
  have k1: "kmax s1 = kmax self" and n1: "npoints s1 = int (Suc k)"
    using AddC_add_len [OF s1] Cons.prems(3) by auto
  have l1: "AddC_len s1 = min (Suc k) (nat (max (kmax s1) 2))"
    using AddC_add_capacity [OF s1 Cons.prems(2)] k1 by simp
  show ?case
    using Cons.IH [OF rest l1 n1] k1 by simp
qed

subsection \<open>The default engine on three points\<close>

lemmas engine_defs =
  AddC_add_def step_one_def step_two_def step_three_def AddC_init_def FastPair_init_def
  fp_len_def fp_add_def fp_sub_def update_point_def sdist_def closest_pair_def
  KernelCentroid_new_def Centroid_new_def centroid_eq_def is_or_eq_def float_eq_def
  sort_dist_def dist_le_def AddC_len_def

lemmas kernel_defs =
  kernel_dist_def gaussian_kernel_def kw_get_def gaussian_def sqeuclidean_def
  KernelCentroid_add_def KernelCentroid_merge_def

lemma default_dist_1d:
  "default_dist [Finite a] [Finite b] = Inr (Finite (2 - 2 * exp (- ((a - b) * (a - b) / 2))))"
  by (simp add: default_dist_def kernel_defs array_defs float_arith)

lemma exp_half_sq_le: "\<not> exp (1 / 2) * exp (1 / 2) \<le> (1::real)"
proof -
  have "exp (1 / 2) * exp (1 / 2) = exp (1::real)"
    by (simp add: exp_add [symmetric])
  moreover have "(1::real) < exp 1"
    by simp
  ultimately show ?thesis by simp
qed

lemma exp_half_sq_less: "\<not> exp (1 / 2) * exp (1 / 2) < (1::real)"
  using exp_half_sq_le by linarith

lemma exp_half_field: "(1 + (1 - exp (1 / 2)) / exp (1 / 2)) * exp (1 / 2) = (1::real)"
  by (simp add: field_simps)

text \<open>The first point \<open>(0,)\<close> is inserted; the second, \<open>(1,)\<close>, moves it and is inserted.\<close>

lemma first_point:
  "AddC_add (AddC_init k default_dist KernelCentroid_new) [0] =
     Inr \<lparr>kmax = k, npoints = 1, centroid_factory = KernelCentroid_new,
          fastpair = \<lparr>fp_points = [KernelCentroid [0] 0 0], fp_dist = default_dist\<rparr>\<rparr>"
  by (simp add: engine_defs float_arith)

lemma second_point:
  "AddC_add \<lparr>kmax = k, npoints = 1, centroid_factory = KernelCentroid_new,
             fastpair = \<lparr>fp_points = [KernelCentroid [0] 0 0], fp_dist = default_dist\<rparr>\<rparr> [1] =
     Inr \<lparr>kmax = k, npoints = 2, centroid_factory = KernelCentroid_new,
          fastpair = \<lparr>fp_points = [KernelCentroid [Finite (exp (1 / 2))] 1 (Finite (exp (- (1 / 2)))),
                                   KernelCentroid [1] 0 0],
                      fp_dist = default_dist\<rparr>\<rparr>"
  by (simp add: engine_defs float_arith default_dist_1d kernel_defs array_defs exp_minus
      inverse_eq_divide)

text \<open>
  With \<open>kmax = 2\<close> the third point \<open>(0,)\<close> moves the centroid at \<open>(1,)\<close>, the two stored
  centroids are merged into one at \<open>(0.5,)\<close>, and the point is inserted.
\<close>

lemma third_step_one:
  "step_one \<lparr>kmax = 2, npoints = 2, centroid_factory = KernelCentroid_new,
             fastpair = \<lparr>fp_points = [KernelCentroid [Finite (exp (1 / 2))] 1 (Finite (exp (- (1 / 2)))),
                                      KernelCentroid [1] 0 0],
                         fp_dist = default_dist\<rparr>\<rparr>
     (KernelCentroid [0] 0 0) =
     Inr \<lparr>kmax = 2, npoints = 2, centroid_factory = KernelCentroid_new,
          fastpair = \<lparr>fp_points = [KernelCentroid [Finite (exp (1 / 2))] 1 (Finite (exp (- (1 / 2)))),
                                   KernelCentroid [Finite (1 - exp (1 / 2))] 1 (Finite (exp (- (1 / 2))))],
                      fp_dist = default_dist\<rparr>\<rparr>"
  apply (simp add: step_one_def sdist_def sort_dist_def dist_le_def fp_len_def float_arith
      default_dist_1d exp_half_sq_le exp_half_sq_less)
  apply (simp add: update_point_def is_or_eq_def centroid_eq_def float_eq_def kernel_defs
      array_defs float_arith exp_minus inverse_eq_divide exp_half_sq_le exp_half_sq_less)
  done

lemma third_step_two:
  "step_two \<lparr>kmax = 2, npoints = 2, centroid_factory = KernelCentroid_new,
             fastpair = \<lparr>fp_points = [KernelCentroid [Finite (exp (1 / 2))] 1 (Finite (exp (- (1 / 2)))),
                                      KernelCentroid [Finite (1 - exp (1 / 2))] 1 (Finite (exp (- (1 / 2))))],
                         fp_dist = default_dist\<rparr>\<rparr> =
     Inr \<lparr>kmax = 2, npoints = 2, centroid_factory = KernelCentroid_new,
          fastpair = \<lparr>fp_points = [KernelCentroid [Finite (1 / 2)] 2 (Finite (2 * exp (- (1 / 2))))],
                      fp_dist = default_dist\<rparr>\<rparr>"
  apply (simp add: step_two_def closest_pair_def fp_len_def default_dist_1d)
  apply (simp add: fp_sub_def update_point_def is_or_eq_def centroid_eq_def float_eq_def
      kernel_defs array_defs float_arith exp_minus inverse_eq_divide exp_half_field)
  done

lemma third_point:
  "AddC_add \<lparr>kmax = 2, npoints = 2, centroid_factory = KernelCentroid_new,
             fastpair = \<lparr>fp_points = [KernelCentroid [Finite (exp (1 / 2))] 1 (Finite (exp (- (1 / 2)))),
                                      KernelCentroid [1] 0 0],
                         fp_dist = default_dist\<rparr>\<rparr> [0] =
     Inr \<lparr>kmax = 2, npoints = 3, centroid_factory = KernelCentroid_new,
          fastpair = \<lparr>fp_points = [KernelCentroid [Finite (1 / 2)] 2 (Finite (2 * exp (- (1 / 2)))),
                                   KernelCentroid [0] 0 0],
                      fp_dist = default_dist\<rparr>\<rparr>"
  using third_step_one
  by (simp add: AddC_add_def KernelCentroid_new_def third_step_two
      step_three_def fp_add_def centroid_eq_def float_eq_def float_arith)

text \<open>
  Ingestion can raise: on a point of another dimension in the distance, and, with the
  plain centroid factory, in the first merge.
\<close>

lemma batch_dimension_mismatch:
  "batch (AddC_init 100 default_dist KernelCentroid_new) [[0, 0], [1, 2, 3]] = Inl ValueError"
  by (simp add: engine_defs default_dist_def kernel_defs array_defs float_arith)

lemma batch_plain_factory_merge:
  "batch (AddC_init 2 default_dist Centroid_new) [[0], [1], [2]] = Inl NameError"
  by (simp add: engine_defs default_dist_def kernel_defs array_defs float_arith Centroid_add_def
      Centroid_merge_def)

subsection \<open>A merge of two centroids of size zero\<close>

text \<open>
  A centroid that has absorbed nothing has size 0.0. When two of them are the closest
  pair, their merge divides by zero and gets a nan center; nothing is raised and ingestion
  goes on. This happens with \<open>kmax = 3\<close> on the points 0, 1, 9, 22: the first centroid is
  moved three times, away from the others, and the centroids at 1 and 9 are merged.
\<close>

lemma absorb_1d:
  assumes "0 \<le> s"
  shows "KernelCentroid_add (KernelCentroid [Finite a] n (Finite s)) (KernelCentroid [Finite p] m z) =
           Inr (KernelCentroid [Finite (a + (p - a) / (s + exp (- ((a - p) * (a - p) / 2))))]
                  (n + 1) (Finite (s + exp (- ((a - p) * (a - p) / 2)))))"
proof -
  have "s + exp (- ((a - p) * (a - p) / 2)) \<noteq> 0"
    using assms exp_gt_zero [of "- ((a - p) * (a - p) / 2)"] by linarith
  then show ?thesis
    by (simp add: kernel_defs array_defs float_arith)
qed

lemma step_one_two:
  assumes "0 \<le> s" and "(p - a) * (p - a) \<le> (p - b) * (p - b)"
  shows "step_one \<lparr>kmax = k, npoints = np, centroid_factory = f,
             fastpair = \<lparr>fp_points = [KernelCentroid [Finite a] n (Finite s),
                                      KernelCentroid [Finite b] 0 0],
                         fp_dist = default_dist\<rparr>\<rparr>
           (KernelCentroid [Finite p] 0 0) =
         Inr \<lparr>kmax = k, npoints = np, centroid_factory = f,
             fastpair = \<lparr>fp_points =
                           [KernelCentroid [Finite (a + (p - a) / (s + exp (- ((a - p) * (a - p) / 2))))]
                              (n + 1) (Finite (s + exp (- ((a - p) * (a - p) / 2)))),
                            KernelCentroid [Finite b] 0 0],
                         fp_dist = default_dist\<rparr>\<rparr>"
  using assms(2)
  apply (simp add: step_one_def sdist_def sort_dist_def dist_le_def fp_len_def default_dist_1d
      absorb_1d [OF assms(1)])
  apply (simp add: update_point_def is_or_eq_def)
  done


lemma step_one_three:
  assumes "0 \<le> s" and "(p - a) * (p - a) \<le> (p - b) * (p - b)"
    and "(p - a) * (p - a) \<le> (p - c) * (p - c)"
  shows "step_one \<lparr>kmax = k, npoints = np, centroid_factory = f,
             fastpair = \<lparr>fp_points = [KernelCentroid [Finite a] n (Finite s),
                                      KernelCentroid [Finite b] 0 0,
                                      KernelCentroid [Finite c] 0 0],
                         fp_dist = default_dist\<rparr>\<rparr>
           (KernelCentroid [Finite p] 0 0) =
         Inr \<lparr>kmax = k, npoints = np, centroid_factory = f,
             fastpair = \<lparr>fp_points =
                           [KernelCentroid [Finite (a + (p - a) / (s + exp (- ((a - p) * (a - p) / 2))))]
                              (n + 1) (Finite (s + exp (- ((a - p) * (a - p) / 2)))),
                            KernelCentroid [Finite b] 0 0,
                            KernelCentroid [Finite c] 0 0],
                         fp_dist = default_dist\<rparr>\<rparr>"
  using assms(2,3)
  apply (simp add: step_one_def sdist_def sort_dist_def dist_le_def fp_len_def default_dist_1d
      absorb_1d [OF assms(1)])
  apply (simp add: update_point_def is_or_eq_def)
  done

lemma step_two_three:
  assumes "(b - c) * (b - c) < (a - b) * (a - b)" and "(b - c) * (b - c) < (a - c) * (a - c)"
    and "b \<noteq> c"
  shows "step_two \<lparr>kmax = 3, npoints = np, centroid_factory = f,
             fastpair = \<lparr>fp_points = [KernelCentroid [Finite a] n (Finite s),
                                      KernelCentroid [Finite b] 0 0,
                                      KernelCentroid [Finite c] 0 0],
                         fp_dist = default_dist\<rparr>\<rparr> =
         Inr \<lparr>kmax = 3, npoints = np, centroid_factory = f,
             fastpair = \<lparr>fp_points = [KernelCentroid [Finite a] n (Finite s),
                                      KernelCentroid [NaN] 0 0],
                         fp_dist = default_dist\<rparr>\<rparr>"
proof -
  have ab: "a \<noteq> b" and ac: "a \<noteq> c"
    using assms(1,2) by auto
  show ?thesis
    using assms ab ac
    apply (simp add: step_two_def closest_pair_def fp_len_def default_dist_1d)
    apply (simp add: fp_sub_def update_point_def is_or_eq_def centroid_eq_def float_eq_def
        KernelCentroid_merge_def array_defs float_arith)
    done
qed


text \<open>Bounds on the real numbers that occur.\<close>

lemma exp_neg_bound: "0 \<le> t \<Longrightarrow> exp (- t) \<le> 1 / (1 + (t::real))"
proof -
  assume t: "0 \<le> t"
  have "1 + t \<le> exp t"
    by (rule exp_ge_add_one_self)
  then have "1 / exp t \<le> 1 / (1 + t)"
    using t by (intro divide_left_mono) (auto intro: mult_pos_pos add_pos_nonneg)
  then show ?thesis
    by (simp add: exp_minus inverse_eq_divide)
qed

lemma square_le: "\<bar>x\<bar> \<le> c \<Longrightarrow> x * x \<le> c * (c::real)"
proof -
  assume "\<bar>x\<bar> \<le> c"
  then have "\<bar>x\<bar> * \<bar>x\<bar> \<le> c * c"
    by (intro mult_mono) auto
  then show ?thesis
    by (simp add: abs_mult_self_eq)
qed

lemma square_less: "0 \<le> c \<Longrightarrow> c < \<bar>x\<bar> \<Longrightarrow> c * c < x * (x::real)"
proof -
  assume "0 \<le> c" "c < \<bar>x\<bar>"
  then have "c * c < \<bar>x\<bar> * \<bar>x\<bar>"
    by (intro mult_strict_mono') auto
  then show ?thesis
    by (simp add: abs_mult_self_eq)
qed

lemma exp_half_bounds: "3 / 2 \<le> exp (1 / 2 :: real)" "exp (1 / 2 :: real) < 2"
proof -
  show "3 / 2 \<le> exp (1 / 2 :: real)"
    using exp_ge_add_one_self [of "1 / 2 :: real"] by simp
  have "exp (1 / 2) * exp (1 / 2) = exp (1::real)"
    by (simp add: exp_add [symmetric])
  then have sq: "exp (1 / 2) * exp (1 / 2) \<le> (3::real)"
    using exp_le by simp
  show "exp (1 / 2 :: real) < 2"
  proof (rule ccontr)
    assume "\<not> exp (1 / 2 :: real) < 2"
    then have "2 \<le> exp (1 / 2 :: real)" by simp
    then have "2 * 2 \<le> exp (1 / 2) * exp (1 / 2 :: real)"
      by (intro mult_mono) auto
    with sq show False by simp
  qed
qed


text \<open>The engine holds three centroids after the four points, one of them with a nan center.\<close>

lemma batch_through_nan_merge:
  "\<exists>a s. batch (AddC_init 3 default_dist KernelCentroid_new) [[0], [1], [9], [22]] =
     Inr \<lparr>kmax = 3, npoints = 4, centroid_factory = KernelCentroid_new,
          fastpair = \<lparr>fp_points = [KernelCentroid [Finite a] 3 (Finite s),
                                   KernelCentroid [NaN] 0 0,
                                   KernelCentroid [22] 0 0],
                      fp_dist = default_dist\<rparr>\<rparr>"
proof -
  define E :: real where "E = exp (1 / 2)"
  define r :: real where "r = exp (- (1 / 2))"
  define s3 where "s3 = r + exp (- ((E - 9) * (E - 9) / 2))"
  define a3 where "a3 = E + (9 - E) / s3"
  define s4 where "s4 = s3 + exp (- ((a3 - 22) * (a3 - 22) / 2))"
  define a4 where "a4 = a3 + (22 - a3) / s4"
  have E: "3 / 2 \<le> E" "E < 2"
    using exp_half_bounds by (simp_all add: E_def)
  have rE: "r * E = 1"
    by (simp add: r_def E_def exp_add [symmetric])
  have r: "0 < r" "r \<le> 2 / 3"
  proof -
    show "0 < r" by (simp add: r_def)
    have "r = 1 / E"
      using rE E(1) by (simp add: field_simps)
    also have "\<dots> \<le> 1 / (3 / 2)"
      using E(1) by (intro divide_left_mono) auto
    finally show "r \<le> 2 / 3" by simp
  qed
  \<comment> \<open>the third point\<close>
  have "7 * 7 < (E - 9) * (E - 9)"
    using E by (intro square_less) auto
  then have "0 \<le> (E - 9) * (E - 9) / 2" "24 \<le> (E - 9) * (E - 9) / 2"
    by auto
  then have "exp (- ((E - 9) * (E - 9) / 2)) \<le> 1 / (1 + 24)"
    using exp_neg_bound [of "(E - 9) * (E - 9) / 2"]
    by (meson add_left_mono divide_left_mono dual_order.trans zero_less_one_class.zero_le_one
        add_pos_nonneg zero_less_one mult_pos_pos zero_le_numeral)
  then have s3: "r < s3" "s3 \<le> 2 / 3 + 1 / 25"
    using r exp_gt_zero [of "- ((E - 9) * (E - 9) / 2)"] by (auto simp: s3_def)
  have s3_pos: "0 < s3" and s3_lt1: "s3 < 1"
    using s3 r by auto
  have a3_lo: "9 < a3"
  proof -
    have "(9 - E) * s3 < (9 - E) * 1"
      using E s3_lt1 by (intro mult_strict_left_mono) auto
    then have "9 - E < (9 - E) / s3"
      using s3_pos by (simp add: field_simps)
    then show ?thesis by (simp add: a3_def)
  qed
  have a3_hi: "a3 < 18"
  proof -
    have "(9 - E) * r < (9 - E) * s3"
      using E s3(1) by (intro mult_strict_left_mono) auto
    then have "(9 - E) * r * E < (9 - E) * s3 * E"
      using E by (intro mult_strict_right_mono) auto
    moreover have "(9 - E) * r * E = 9 - E"
      using rE by (simp add: mult.assoc)
    moreover have "(9 - E) * s3 * E = (9 - E) * E * s3"
      by simp
    ultimately have "9 - E < (9 - E) * E * s3"
      by simp
    then have "(9 - E) / s3 < (9 - E) * E"
      using s3_pos by (simp only: pos_divide_less_eq)
    moreover have "(9 - E) * E \<le> (9 - E) * 2"
      using E by (intro mult_left_mono) auto
    ultimately show ?thesis
      using E by (simp add: a3_def)
  qed
  have third_one: "(9 - E) * (9 - E) \<le> (9 - 1) * (9 - 1)"
  proof -
    have "(9 - E) * (9 - E) \<le> 8 * 8"
      using E by (intro square_le) auto
    then show ?thesis by simp
  qed
  have p3: "AddC_add \<lparr>kmax = 3, npoints = 2, centroid_factory = KernelCentroid_new,
             fastpair = \<lparr>fp_points = [KernelCentroid [Finite (exp (1 / 2))] 1 (Finite (exp (- (1 / 2)))),
                                      KernelCentroid [1] 0 0],
                         fp_dist = default_dist\<rparr>\<rparr> [9] =
     Inr \<lparr>kmax = 3, npoints = 3, centroid_factory = KernelCentroid_new,
          fastpair = \<lparr>fp_points = [KernelCentroid [Finite a3] 2 (Finite s3),
                                   KernelCentroid [Finite 1] 0 0,
                                   KernelCentroid [Finite 9] 0 0],
                      fp_dist = default_dist\<rparr>\<rparr>"
    using step_one_two [of r 9 E 1 3 2 KernelCentroid_new 1] r(1) third_one a3_lo
    by (simp add: AddC_add_def KernelCentroid_new_def step_two_def step_three_def fp_len_def
        fp_add_def centroid_eq_def float_eq_def float_arith E_def [symmetric] r_def [symmetric]
        s3_def [symmetric] a3_def [symmetric])
  \<comment> \<open>the fourth point\<close>
  have "4 * 4 < (a3 - 22) * (a3 - 22)"
    using a3_hi by (intro square_less) auto
  then have "0 \<le> (a3 - 22) * (a3 - 22) / 2" "8 \<le> (a3 - 22) * (a3 - 22) / 2"
    by auto
  then have "exp (- ((a3 - 22) * (a3 - 22) / 2)) \<le> 1 / (1 + 8)"
    using exp_neg_bound [of "(a3 - 22) * (a3 - 22) / 2"]
    by (meson add_left_mono divide_left_mono dual_order.trans zero_less_one_class.zero_le_one
        add_pos_nonneg zero_less_one mult_pos_pos zero_le_numeral)
  then have "s4 < 1"
    using s3 by (auto simp: s4_def)
  moreover have "0 < s4"
    unfolding s4_def using s3_pos by (intro add_pos_pos) auto
  ultimately have s4: "0 < s4" "s4 < 1"
    by auto
  have a4: "22 < a4"
  proof -
    have "(22 - a3) * s4 < (22 - a3) * 1"
      using a3_hi s4 by (intro mult_strict_left_mono) auto
    then have "22 - a3 < (22 - a3) / s4"
      using s4(1) by (simp add: field_simps)
    then show ?thesis by (simp add: a4_def)
  qed
  have fourth_one: "(22 - a3) * (22 - a3) \<le> (22 - 1) * (22 - 1)"
    "(22 - a3) * (22 - a3) \<le> (22 - 9) * (22 - 9)"
  proof -
    have "(22 - a3) * (22 - a3) \<le> 13 * 13"
      using a3_lo a3_hi by (intro square_le) auto
    then show "(22 - a3) * (22 - a3) \<le> (22 - 1) * (22 - 1)"
      "(22 - a3) * (22 - a3) \<le> (22 - 9) * (22 - 9)"
      by auto
  qed
  have fourth_two: "(1 - 9) * (1 - 9) < (a4 - 1) * (a4 - 1)"
    "(1 - 9) * (1 - 9) < (a4 - 9) * (a4 - 9)"
  proof -
    have "8 * 8 < (a4 - 1) * (a4 - 1)"
      using a4 by (intro square_less) auto
    moreover have "8 * 8 < (a4 - 9) * (a4 - 9)"
      using a4 by (intro square_less) auto
    ultimately have "8 * 8 < (a4 - 1) * (a4 - 1)" "8 * 8 < (a4 - 9) * (a4 - 9)"
      by auto
    then show "(1 - 9) * (1 - 9) < (a4 - 1) * (a4 - 1)"
      "(1 - 9) * (1 - 9) < (a4 - 9) * (a4 - 9)"
      by auto
  qed
  have p4: "AddC_add \<lparr>kmax = 3, npoints = 3, centroid_factory = KernelCentroid_new,
          fastpair = \<lparr>fp_points = [KernelCentroid [Finite a3] 2 (Finite s3),
                                   KernelCentroid [Finite 1] 0 0,
                                   KernelCentroid [Finite 9] 0 0],
                      fp_dist = default_dist\<rparr>\<rparr> [22] =
     Inr \<lparr>kmax = 3, npoints = 4, centroid_factory = KernelCentroid_new,
          fastpair = \<lparr>fp_points = [KernelCentroid [Finite a4] 3 (Finite s4),
                                   KernelCentroid [NaN] 0 0,
                                   KernelCentroid [Finite 22] 0 0],
                      fp_dist = default_dist\<rparr>\<rparr>"
    using step_one_three [of s3 22 a3 1 9 3 3 KernelCentroid_new 2] s3_pos fourth_one
      step_two_three [of 1 9 a4 3 KernelCentroid_new 3 s4] fourth_two a4
    by (simp add: AddC_add_def KernelCentroid_new_def step_three_def
        fp_add_def centroid_eq_def float_eq_def float_arith
        s4_def [symmetric] a4_def [symmetric])
  have "batch (AddC_init 3 default_dist KernelCentroid_new) [[0], [1], [9], [22]] =
     Inr \<lparr>kmax = 3, npoints = 4, centroid_factory = KernelCentroid_new,
          fastpair = \<lparr>fp_points = [KernelCentroid [Finite a4] 3 (Finite s4),
                                   KernelCentroid [NaN] 0 0,
                                   KernelCentroid [22] 0 0],
                      fp_dist = default_dist\<rparr>\<rparr>"
    by (simp only: batch.simps first_point second_point p3 p4 sum.case numeral_float)
  then show ?thesis by blast
qed

text \<open>
  C1, as claimed: for every positive \<open>kmax\<close> the engine holds \<open>min(n, kmax)\<close> centroids
  after \<open>n\<close> points. With \<open>kmax = 1\<close> the default engine holds 2 centroids after the
  points \<open>(0,)\<close> and \<open>(1,)\<close>, not \<open>min(2, 1) = 1\<close>: step 2 merges only when the index holds
  more than one centroid, and step 3 always inserts.
\<close>

theorem capacity_kmax_1_counterexample:
  "map_sum id AddC_len (batch (AddC_init 1 default_dist KernelCentroid_new) [[0], [1]]) = Inr 2
   \<and> (2::nat) \<noteq> min 2 (nat 1)"
  by (simp add: first_point second_point AddC_len_def fp_len_def)

text \<open>
  C1, amended. For every \<open>kmax\<close>, distance and centroid factory, and every finite stream
  of \<open>n\<close> points that a freshly constructed engine ingests without an error, the engine
  then holds \<open>min(n, max(kmax, 2))\<close> centroids, which is \<open>min(n, kmax)\<close> for every
  \<open>kmax \<ge> 2\<close>.
\<close>

theorem capacity_invariant:
  assumes "batch (AddC_init k d factory) ps = Inr s"
  shows "AddC_len s = min (length ps) (nat (max k 2))"
  using batch_capacity [OF assms, of 0]
  by (simp add: AddC_init_def AddC_len_def FastPair_init_def fp_len_def)

theorem capacity_invariant_witness:
  "\<exists>s. batch (AddC_init 2 default_dist KernelCentroid_new) [[0], [1], [0]] = Inr s
       \<and> AddC_len s = min 3 2"
proof -
  have b: "batch (AddC_init 2 default_dist KernelCentroid_new) [[0], [1], [0]] =
             Inr \<lparr>kmax = 2, npoints = 3, centroid_factory = KernelCentroid_new,
                  fastpair = \<lparr>fp_points = [KernelCentroid [Finite (1 / 2)] 2 (Finite (2 * exp (- (1 / 2)))),
                                           KernelCentroid [0] 0 0],
                              fp_dist = default_dist\<rparr>\<rparr>"
    by (simp add: first_point second_point third_point)
  show ?thesis
    using capacity_invariant [OF b] b by simp
qed

section \<open>Trimming\<close>

lemma map_result_size_attr:
  "\<forall>c \<in> set pts. \<exists>s. size_attr c = Inr s \<Longrightarrow>
   \<exists>sizes. map_result size_attr pts = Inr sizes
     \<and> (\<forall>s. s \<in> set sizes \<longleftrightarrow> (\<exists>c \<in> set pts. size_attr c = Inr s))"
proof (induction pts)
  case Nil
  then show ?case by simp
next
  case (Cons c pts)
  then obtain s where s: "size_attr c = Inr s" by auto
  from Cons obtain sizes where
    sizes: "map_result size_attr pts = Inr sizes"
      "\<forall>s. s \<in> set sizes \<longleftrightarrow> (\<exists>c \<in> set pts. size_attr c = Inr s)"
    by auto
  show ?case
    using s sizes by auto
qed

text \<open>
  C10, as claimed: whenever no stored centroid has a size greater than 0, \<open>trim\<close> raises a
  division-by-zero error. An engine made with \<open>centroid_factory=Centroid\<close> holds, after
  the point \<open>(0,)\<close>, one plain centroid, which has no size: \<open>trim(0.01)\<close> raises
  \<open>IndexError\<close> on reading \<open>x.size\<close>.
\<close>

theorem trim_plain_centroid_counterexample:
  "AddC_add (AddC_init 100 default_dist Centroid_new) [0] =
     Inr \<lparr>kmax = 100, npoints = 1, centroid_factory = Centroid_new,
          fastpair = \<lparr>fp_points = [Centroid [0] 0], fp_dist = default_dist\<rparr>\<rparr>
   \<and> trim \<lparr>kmax = 100, npoints = 1, centroid_factory = Centroid_new,
            fastpair = \<lparr>fp_points = [Centroid [0] 0], fp_dist = default_dist\<rparr>\<rparr> (1 / 100)
       = Inl IndexError"
  by (simp add: AddC_add_def step_one_def step_two_def step_three_def AddC_init_def
      FastPair_init_def fp_len_def fp_add_def Centroid_new_def trim_def zero_float_def)

text \<open>
  C10, amended. For every engine state whose stored centroids are all kernel centroids
  (the empty engine among them) and every proportion \<open>p\<close>: if no stored centroid has a size
  greater than 0, \<open>trim\<close> raises \<open>ZeroDivisionError\<close>; if one has, it returns a sequence.
\<close>

theorem trim_division_by_zero:
  assumes "\<forall>c \<in> set (fp_points (fastpair self)). \<exists>s. size_attr c = Inr s"
  shows "(\<not> (\<exists>c \<in> set (fp_points (fastpair self)). \<exists>s. size_attr c = Inr s \<and> 0 < s)
            \<longrightarrow> trim self p = Inl ZeroDivisionError)
       \<and> ((\<exists>c \<in> set (fp_points (fastpair self)). \<exists>s. size_attr c = Inr s \<and> 0 < s)
            \<longrightarrow> (\<exists>r. trim self p = Inr r))"
proof -
  obtain sizes where
    sizes: "map_result size_attr (fp_points (fastpair self)) = Inr sizes"
      "\<forall>s. s \<in> set sizes \<longleftrightarrow> (\<exists>c \<in> set (fp_points (fastpair self)). size_attr c = Inr s)"
    using map_result_size_attr [OF assms] by blast
  have "filter (\<lambda>s. 0 < s) sizes = [] \<longleftrightarrow>
          \<not> (\<exists>c \<in> set (fp_points (fastpair self)). \<exists>s. size_attr c = Inr s \<and> 0 < s)"
    using sizes(2) by (auto simp: filter_empty_conv)
  then show ?thesis
    by (auto simp: trim_def sizes(1) Let_def)
qed

theorem trim_division_by_zero_witness:
  "trim AddC_default (1 / 100) = Inl ZeroDivisionError
   \<and> (\<exists>r. trim \<lparr>kmax = 100, npoints = 2, centroid_factory = KernelCentroid_new,
                 fastpair = \<lparr>fp_points = [KernelCentroid [Finite (exp (1 / 2))] 1 (Finite (exp (- (1 / 2)))),
                                          KernelCentroid [1] 0 0],
                             fp_dist = default_dist\<rparr>\<rparr> (1 / 100) = Inr r)"
  using trim_division_by_zero [of AddC_default "1 / 100"]
    trim_division_by_zero
      [of "\<lparr>kmax = 100, npoints = 2, centroid_factory = KernelCentroid_new,
            fastpair = \<lparr>fp_points = [KernelCentroid [Finite (exp (1 / 2))] 1 (Finite (exp (- (1 / 2)))),
                                     KernelCentroid [1] 0 0],
                        fp_dist = default_dist\<rparr>\<rparr>" "1 / 100"]
  by (simp add: AddC_default_def AddC_init_def FastPair_init_def zero_float_def)

end
